theory Spec2Isabelle
  imports Main "HOL-Library.Sublist"
begin

unbundle bit_operations_syntax

section \<open>Data model of \<open>app/run.py\<close>\<close>

text \<open>
  The three frozen dataclasses of the launcher. Python's \<open>str\<close> is \<open>string\<close>.
\<close>

record Image =
  library :: string
  image :: string
  tag :: string

record ContainerInitParams =
  p_image :: Image
  command :: "string list"
  container_id :: string

record ContainerDir =
  root_dir :: string
  rw_dir :: string
  work_dir :: string

section \<open>Path strings\<close>

text \<open>
  \<open>os.path.join\<close> of \<open>posixpath\<close>, for two arguments: a second component that starts
  with a slash replaces the first; an empty first component or one that ends with a slash
  takes the second without a separator; otherwise a slash is put between them. The call
  with three arguments folds this from the left.
\<close>

definition os_path_join :: "string \<Rightarrow> string \<Rightarrow> string" where
  "os_path_join a b =
     (if b \<noteq> [] \<and> hd b = CHR ''/'' then b
      else if a = [] \<or> last a = CHR ''/'' then a @ b
      else a @ ''/'' @ b)"

definition os_path_join3 :: "string \<Rightarrow> string \<Rightarrow> string \<Rightarrow> string" where
  "os_path_join3 a b c = os_path_join (os_path_join a b) c"

definition IMAGE_DATA_DIR :: string where
  "IMAGE_DATA_DIR = ''/var/opt/app/images''"

definition CONTAINER_DATA_DIR :: string where
  "CONTAINER_DATA_DIR = ''/var/opt/app/container''"

text \<open>\<open>ContainerExecuter._get_image_base_path\<close> and \<open>_get_container_data_base_path\<close>.\<close>

definition get_image_base_path :: "Image \<Rightarrow> string \<Rightarrow> string" where
  "get_image_base_path img image_dir =
     os_path_join image_dir (library img @ ''_'' @ image img @ ''_'' @ tag img)"

definition get_container_data_base_path :: "string \<Rightarrow> string \<Rightarrow> string" where
  "get_container_data_base_path cid base_path = os_path_join base_path cid"

section \<open>The operating system the launcher talks to\<close>

text \<open>
  The launcher is a sequence of calls into \<open>os\<close> and into the \<open>linux\<close> extension module
  (thin wrappers of the system calls; the module is not part of this repository). The
  calls are modelled over an explicit state of the calling process:
  \<^item> a file-system view, a finite table from resolved paths (lists of component names,
    the root being \<open>[]\<close>) to nodes; the root is always a directory;
  \<^item> the mount table of the mount namespace, most recent mount first; an entry keeps the
    entries it covers, so that unmounting shows them again;
  \<^item> the propagation type of the mount tree, the working directory and the host name;
  \<^item> the trace of the calls made so far, failed ones included.

  What is left out: permissions (the process is taken to have the privileges the calls
  need), symbolic links inside a path (a link is a leaf, it is not followed), the contents
  of the kernel's pseudo file systems (a fresh \<open>proc\<close>, \<open>sysfs\<close>, \<open>devpts\<close> or \<open>tmpfs\<close>
  shows no entries), and the copy-up of an overlay (the merged view is computed when the
  overlay is mounted).
\<close>

type_synonym path = "string list"

datatype node = Dir | File | Link string | Special nat nat

type_synonym fs_table = "(path \<times> node) list"

datatype propagation = Shared | Private

record mount_entry =
  m_point :: path
  m_fstype :: string
  m_flags :: nat
  m_data :: string
  m_covered :: fs_table

datatype errno = ENOENT | EEXIST | ENOTDIR | EINVAL | EBUSY | ENOTEMPTY | ENODEV

text \<open>
  The exceptions that reach the launcher: \<open>OSError\<close> with its errno from the \<open>os\<close> calls
  (\<open>FileExistsError\<close> is \<open>OSError EEXIST\<close>, \<open>FileNotFoundError\<close> is \<open>OSError ENOENT\<close>,
  \<open>NotADirectoryError\<close> is \<open>OSError ENOTDIR\<close>), \<open>RuntimeError\<close> from every failing call
  of the \<open>linux\<close> module, and \<open>IndexError\<close> from indexing an empty list.
\<close>

datatype exn = OSError errno | RuntimeError errno | IndexError

abbreviation FileExistsError :: exn where
  "FileExistsError \<equiv> OSError EEXIST"

text \<open>The two lines the program prints, with the values they are formatted from.\<close>

datatype printed = Created_root_fs ContainerDir | Exited_with_status nat nat

datatype event =
    Sethostname string
  | Mount "string option" string "string option" nat "string option"
  | Exists string
  | Makedirs string
  | Symlink string string
  | Mknod string nat nat
  | Pivot_root string string
  | Chdir string
  | Umount2 string nat
  | Rmdir string
  | Execvp string "string list"
  | Clone nat
  | Waitpid nat nat
  | Print printed

record os_state =
  fs :: fs_table
  mounts :: "mount_entry list"
  propagation :: propagation
  cwd :: path
  hostname :: string
  trace :: "event list"

type_synonym 'a io = "os_state \<Rightarrow> (exn + 'a) \<times> os_state"

definition return_io :: "'a \<Rightarrow> 'a io" where
  "return_io x s = (Inr x, s)"

definition bind_io :: "'a io \<Rightarrow> ('a \<Rightarrow> 'b io) \<Rightarrow> 'b io" where
  "bind_io m k s = (case m s of (Inl e, s') \<Rightarrow> (Inl e, s') | (Inr x, s') \<Rightarrow> k x s')"

definition then_io :: "unit io \<Rightarrow> 'b io \<Rightarrow> 'b io" where
  "then_io m k = bind_io m (\<lambda>_. k)"

definition log :: "event \<Rightarrow> os_state \<Rightarrow> os_state" where
  "log e s = s\<lparr>trace := trace s @ [e]\<rparr>"

definition raise_io :: "exn \<Rightarrow> os_state \<Rightarrow> (exn + 'a) \<times> os_state" where
  "raise_io e s = (Inl e, s)"

subsection \<open>Constants of the \<open>linux\<close> module and of \<open>stat\<close>\<close>

text \<open>
  The flag values are those of the Linux headers (\<open>sys/mount.h\<close>, \<open>sched.h\<close>,
  \<open>sys/stat.h\<close>), which the \<open>linux\<close> module and \<open>stat\<close> export under the same names.
\<close>

definition MS_NOSUID :: nat where "MS_NOSUID = 2"
definition MS_NODEV :: nat where "MS_NODEV = 4"
definition MS_REC :: nat where "MS_REC = 16384"
definition MS_PRIVATE :: nat where "MS_PRIVATE = 262144"
definition MS_STRICTATIME :: nat where "MS_STRICTATIME = 16777216"
definition MNT_DETACH :: nat where "MNT_DETACH = 2"
definition CLONE_NEWNS :: nat where "CLONE_NEWNS = 131072"
definition CLONE_NEWUTS :: nat where "CLONE_NEWUTS = 67108864"
definition CLONE_NEWPID :: nat where "CLONE_NEWPID = 536870912"
definition CLONE_NEWNET :: nat where "CLONE_NEWNET = 1073741824"
definition S_IFCHR :: nat where "S_IFCHR = 8192"

text \<open>\<open>os.makedev\<close>, the device number of glibc's \<open>gnu_dev_makedev\<close>.\<close>

definition os_makedev :: "nat \<Rightarrow> nat \<Rightarrow> nat" where
  "os_makedev major minor =
     push_bit 8 (major AND 4095) OR push_bit 32 (major AND 4294963200)
       OR (minor AND 255) OR push_bit 12 (minor AND 4294967040)"

subsection \<open>Path resolution\<close>

fun split_at :: "char \<Rightarrow> string \<Rightarrow> string \<Rightarrow> string list" where
  "split_at c cur [] = [cur]"
| "split_at c cur (x # xs) =
     (if x = c then cur # split_at c [] xs else split_at c (cur @ [x]) xs)"

definition step_component :: "path \<Rightarrow> string \<Rightarrow> path" where
  "step_component p c =
     (if c = [] \<or> c = ''.'' then p else if c = ''..'' then butlast p else p @ [c])"

text \<open>
  A path string is resolved against the working directory unless it starts with a slash;
  empty components and \<open>.\<close> are skipped, \<open>..\<close> steps up. The empty string names nothing.
\<close>

definition resolve :: "path \<Rightarrow> string \<Rightarrow> path option" where
  "resolve wd name =
     (if name = [] then None
      else Some (foldl step_component (if hd name = CHR ''/'' then [] else wd)
                   (split_at CHR ''/'' [] name)))"

text \<open>A name that is one ordinary path component.\<close>

definition simple_name :: "string \<Rightarrow> bool" where
  "simple_name n \<longleftrightarrow> n \<noteq> [] \<and> CHR ''/'' \<notin> set n \<and> n \<noteq> ''.'' \<and> n \<noteq> ''..''"

definition lookup :: "fs_table \<Rightarrow> path \<Rightarrow> node option" where
  "lookup f p = (if p = [] then Some Dir else map_of f p)"

text \<open>The entries strictly below a directory: removed, taken out relative to it, put back.\<close>

definition hide :: "path \<Rightarrow> fs_table \<Rightarrow> fs_table" where
  "hide t f = filter (\<lambda>(q, n). \<not> strict_prefix t q) f"

definition subtree :: "path \<Rightarrow> fs_table \<Rightarrow> fs_table" where
  "subtree t f =
     map (\<lambda>(q, n). (drop (length t) q, n)) (filter (\<lambda>(q, n). strict_prefix t q) f)"

definition graft :: "path \<Rightarrow> fs_table \<Rightarrow> fs_table" where
  "graft t rel = map (\<lambda>(r, n). (t @ r, n)) (filter (\<lambda>(r, n). r \<noteq> []) rel)"

definition mounted_at :: "os_state \<Rightarrow> path \<Rightarrow> mount_entry option" where
  "mounted_at s t = find (\<lambda>m. m_point m = t) (mounts s)"

fun drop_first :: "('a \<Rightarrow> bool) \<Rightarrow> 'a list \<Rightarrow> 'a list" where
  "drop_first P [] = []"
| "drop_first P (x # xs) = (if P x then xs else x # drop_first P xs)"

subsection \<open>The calls of \<open>os\<close>\<close>

text \<open>\<open>os.path.exists\<close>: whether the path names an entry. It never raises.\<close>

definition path_exists :: "os_state \<Rightarrow> string \<Rightarrow> bool" where
  "path_exists s name =
     (case resolve (cwd s) name of None \<Rightarrow> False | Some p \<Rightarrow> lookup (fs s) p \<noteq> None)"

definition os_path_exists :: "string \<Rightarrow> bool io" where
  "os_path_exists name s = (Inr (path_exists s name), log (Exists name) s)"

text \<open>
  \<open>os.makedirs\<close> with \<open>exist_ok\<close> left at \<open>False\<close>: an existing leaf raises
  \<open>FileExistsError\<close>; every missing directory on the way to the leaf is created; a
  component on the way that is not a directory raises \<open>NotADirectoryError\<close>.
\<close>

definition os_makedirs :: "string \<Rightarrow> unit io" where
  "os_makedirs name s =
     (let s' = log (Makedirs name) s in
      case resolve (cwd s) name of
        None \<Rightarrow> raise_io (OSError ENOENT) s'
      | Some p \<Rightarrow>
          if lookup (fs s) p \<noteq> None then raise_io FileExistsError s'
          else if list_ex (\<lambda>q. lookup (fs s) q \<noteq> None \<and> lookup (fs s) q \<noteq> Some Dir)
                    (prefixes p)
          then raise_io (OSError ENOTDIR) s'
          else (Inr (), s'\<lparr>fs := map (\<lambda>q. (q, Dir))
                                  (filter (\<lambda>q. lookup (fs s) q = None) (prefixes p)) @ fs s\<rparr>))"

text \<open>
  Creating one new entry, for \<open>os.symlink\<close> and \<open>os.mknod\<close>: the parent must be a
  directory and the name must be free.
\<close>

definition create_entry :: "event \<Rightarrow> string \<Rightarrow> node \<Rightarrow> unit io" where
  "create_entry ev name n s =
     (let s' = log ev s in
      case resolve (cwd s) name of
        None \<Rightarrow> raise_io (OSError ENOENT) s'
      | Some p \<Rightarrow>
          if p = [] then raise_io FileExistsError s'
          else (case lookup (fs s) (butlast p) of
              None \<Rightarrow> raise_io (OSError ENOENT) s'
            | Some d \<Rightarrow>
                if d \<noteq> Dir then raise_io (OSError ENOTDIR) s'
                else if lookup (fs s) p \<noteq> None then raise_io FileExistsError s'
                else (Inr (), s'\<lparr>fs := (p, n) # fs s\<rparr>)))"

definition os_symlink :: "string \<Rightarrow> string \<Rightarrow> unit io" where
  "os_symlink src dst = create_entry (Symlink src dst) dst (Link src)"

definition os_mknod :: "string \<Rightarrow> nat \<Rightarrow> nat \<Rightarrow> unit io" where
  "os_mknod name mode device = create_entry (Mknod name mode device) name (Special mode device)"

definition os_chdir :: "string \<Rightarrow> unit io" where
  "os_chdir name s =
     (let s' = log (Chdir name) s in
      case resolve (cwd s) name of
        None \<Rightarrow> raise_io (OSError ENOENT) s'
      | Some p \<Rightarrow>
          (case lookup (fs s) p of
             None \<Rightarrow> raise_io (OSError ENOENT) s'
           | Some d \<Rightarrow>
               if d \<noteq> Dir then raise_io (OSError ENOTDIR) s'
               else (Inr (), s'\<lparr>cwd := p\<rparr>)))"

text \<open>\<open>os.rmdir\<close>: the directory must exist, be empty, and be neither the root nor a mount point.\<close>

definition os_rmdir :: "string \<Rightarrow> unit io" where
  "os_rmdir name s =
     (let s' = log (Rmdir name) s in
      case resolve (cwd s) name of
        None \<Rightarrow> raise_io (OSError ENOENT) s'
      | Some p \<Rightarrow>
          if p = [] then raise_io (OSError EBUSY) s'
          else (case lookup (fs s) p of
              None \<Rightarrow> raise_io (OSError ENOENT) s'
            | Some d \<Rightarrow>
                if d \<noteq> Dir then raise_io (OSError ENOTDIR) s'
                else if mounted_at s p \<noteq> None then raise_io (OSError EBUSY) s'
                else if list_ex (\<lambda>(q, n). strict_prefix p q) (fs s)
                then raise_io (OSError ENOTEMPTY) s'
                else (Inr (), s'\<lparr>fs := filter (\<lambda>(q, n). q \<noteq> p) (fs s)\<rparr>)))"

definition py_print :: "printed \<Rightarrow> unit io" where
  "py_print out s = (Inr (), log (Print out) s)"

subsection \<open>The calls of the \<open>linux\<close> module\<close>

text \<open>\<open>sethostname(2)\<close>: a name longer than 64 bytes is refused.\<close>

definition linux_sethostname :: "string \<Rightarrow> unit io" where
  "linux_sethostname name s =
     (let s' = log (Sethostname name) s in
      if 64 < length name then raise_io (RuntimeError EINVAL) s'
      else (Inr (), s'\<lparr>hostname := name\<rparr>))"

text \<open>
  The option string of a mount: options are separated by commas, a key from its value by
  the first equals sign, and a later option overrides an earlier one of the same key.
\<close>

definition parse_option :: "string \<Rightarrow> string \<times> string" where
  "parse_option w =
     (takeWhile (\<lambda>c. c \<noteq> CHR ''='') w, drop 1 (dropWhile (\<lambda>c. c \<noteq> CHR ''='') w))"

definition mount_options :: "string \<Rightarrow> (string \<times> string) list" where
  "mount_options d = rev (map parse_option (split_at CHR '','' [] d))"

definition is_dir :: "os_state \<Rightarrow> string \<Rightarrow> bool" where
  "is_dir s name =
     (case resolve (cwd s) name of None \<Rightarrow> False | Some p \<Rightarrow> lookup (fs s) p = Some Dir)"

definition tree_of :: "os_state \<Rightarrow> string \<Rightarrow> fs_table" where
  "tree_of s name = (case resolve (cwd s) name of None \<Rightarrow> [] | Some p \<Rightarrow> subtree p (fs s))"

text \<open>
  What an overlay shows: \<open>lowerdir\<close> is required and is a colon-separated list of
  directories, \<open>upperdir\<close> needs \<open>workdir\<close>, all of them must be directories; an entry of
  the upper directory hides the entry of the same path in a lower one.
\<close>

definition overlay_content :: "os_state \<Rightarrow> string \<Rightarrow> errno + fs_table" where
  "overlay_content s d =
     (let opts = mount_options d in
      case map_of opts ''lowerdir'' of
        None \<Rightarrow> Inl EINVAL
      | Some lower \<Rightarrow>
          let layers = split_at CHR '':'' [] lower in
          if \<not> list_all (is_dir s) layers then Inl ENOENT
          else (case map_of opts ''upperdir'' of
              None \<Rightarrow> Inr (concat (map (tree_of s) layers))
            | Some upper \<Rightarrow>
                (case map_of opts ''workdir'' of
                   None \<Rightarrow> Inl EINVAL
                 | Some work \<Rightarrow>
                     if is_dir s upper \<and> is_dir s work
                     then Inr (tree_of s upper @ concat (map (tree_of s) layers))
                     else Inl ENOENT)))"

definition new_filesystem :: "os_state \<Rightarrow> string option \<Rightarrow> string option \<Rightarrow> errno + fs_table" where
  "new_filesystem s fstype data =
     (case fstype of
        None \<Rightarrow> Inl EINVAL
      | Some ty \<Rightarrow>
          if ty = ''overlay'' then overlay_content s (case data of None \<Rightarrow> [] | Some d \<Rightarrow> d)
          else if ty = ''tmpfs'' \<or> ty = ''proc'' \<or> ty = ''sysfs'' \<or> ty = ''devpts'' then Inr []
          else Inl ENODEV)"

text \<open>
  \<open>mount(2)\<close>. The target must be a directory. With \<open>MS_PRIVATE\<close> the call changes the
  propagation type of the mount at the target (of the whole tree when the target is the
  root and \<open>MS_REC\<close> is given) and mounts nothing. Otherwise a new file system of the
  given type is put on the target and covers what was below it.
\<close>

definition linux_mount ::
  "string option \<Rightarrow> string \<Rightarrow> string option \<Rightarrow> nat \<Rightarrow> string option \<Rightarrow> unit io" where
  "linux_mount source target fstype flags data s =
     (let s' = log (Mount source target fstype flags data) s in
      case resolve (cwd s) target of
        None \<Rightarrow> raise_io (RuntimeError ENOENT) s'
      | Some t \<Rightarrow>
          (case lookup (fs s) t of
             None \<Rightarrow> raise_io (RuntimeError ENOENT) s'
           | Some d \<Rightarrow>
               if d \<noteq> Dir then raise_io (RuntimeError ENOTDIR) s'
               else if flags AND MS_PRIVATE \<noteq> 0 then
                 (if mounted_at s t = None then raise_io (RuntimeError EINVAL) s'
                  else (Inr (), s'\<lparr>propagation :=
                          (if t = [] \<and> flags AND MS_REC \<noteq> 0 then Private else propagation s)\<rparr>))
               else (case new_filesystem s fstype data of
                   Inl e \<Rightarrow> raise_io (RuntimeError e) s'
                 | Inr content \<Rightarrow>
                     (Inr (), s'\<lparr>fs := graft t content @ hide t (fs s),
                                 mounts := \<lparr>m_point = t,
                                            m_fstype = (case fstype of None \<Rightarrow> [] | Some ty \<Rightarrow> ty),
                                            m_flags = flags,
                                            m_data = (case data of None \<Rightarrow> [] | Some d \<Rightarrow> d),
                                            m_covered = subtree t (fs s)\<rparr> # mounts s\<rparr>))))"

text \<open>
  \<open>pivot_root(2)\<close>. Both paths must be directories, the new root must be a mount point
  other than the current root, \<open>put_old\<close> must be at or below the new root, the current
  root must be a mount point and the mount tree must not be shared. Then the tree below the
  new root becomes the view, and the old root is mounted on \<open>put_old\<close>, inside it.
\<close>

definition rebase :: "path \<Rightarrow> path \<Rightarrow> path \<Rightarrow> path" where
  "rebase nr rel q = (if prefix nr q then drop (length nr) q else rel @ q)"

definition linux_pivot_root :: "string \<Rightarrow> string \<Rightarrow> unit io" where
  "linux_pivot_root new_root put_old s =
     (let s' = log (Pivot_root new_root put_old) s in
      case resolve (cwd s) new_root of
        None \<Rightarrow> raise_io (RuntimeError ENOENT) s'
      | Some nr \<Rightarrow>
      (case resolve (cwd s) put_old of
        None \<Rightarrow> raise_io (RuntimeError ENOENT) s'
      | Some po \<Rightarrow>
          if lookup (fs s) nr = None \<or> lookup (fs s) po = None
          then raise_io (RuntimeError ENOENT) s'
          else if lookup (fs s) nr \<noteq> Some Dir \<or> lookup (fs s) po \<noteq> Some Dir
          then raise_io (RuntimeError ENOTDIR) s'
          else if nr = [] then raise_io (RuntimeError EBUSY) s'
          else if \<not> prefix nr po \<or> propagation s = Shared
          then raise_io (RuntimeError EINVAL) s'
          else (case mounted_at s nr of
              None \<Rightarrow> raise_io (RuntimeError EINVAL) s'
            | Some mn \<Rightarrow>
            (case mounted_at s [] of
              None \<Rightarrow> raise_io (RuntimeError EINVAL) s'
            | Some mr \<Rightarrow>
                let rel = drop (length nr) po;
                    new_tree = subtree nr (fs s);
                    old_tree = hide nr (fs s) @ graft nr (m_covered mn)
                in (Inr (),
                    s'\<lparr>fs := graft rel old_tree @ hide rel new_tree,
                       mounts := mr\<lparr>m_point := rel, m_covered := subtree rel new_tree\<rparr>
                                 # map (\<lambda>m. m\<lparr>m_point := rebase nr rel (m_point m)\<rparr>)
                                     (drop_first (\<lambda>m. m_point m = []) (mounts s)),
                       cwd := (if cwd s = [] then [] else rebase nr rel (cwd s))\<rparr>)))))"

text \<open>
  \<open>umount2(2)\<close>. The target must be a mount point other than the root. Without
  \<open>MNT_DETACH\<close> a mount that is in use (it has mounts below it, or the working directory
  is inside) is busy; with it the mount and the mounts below it are detached. What the
  mount covered is visible again.
\<close>

definition linux_umount2 :: "string \<Rightarrow> nat \<Rightarrow> unit io" where
  "linux_umount2 target flags s =
     (let s' = log (Umount2 target flags) s in
      case resolve (cwd s) target of
        None \<Rightarrow> raise_io (RuntimeError ENOENT) s'
      | Some t \<Rightarrow>
          if lookup (fs s) t = None then raise_io (RuntimeError ENOENT) s'
          else if t = [] then raise_io (RuntimeError EINVAL) s'
          else (case mounted_at s t of
              None \<Rightarrow> raise_io (RuntimeError EINVAL) s'
            | Some m \<Rightarrow>
                if flags AND MNT_DETACH = 0
                   \<and> (list_ex (\<lambda>m'. strict_prefix t (m_point m')) (mounts s) \<or> prefix t (cwd s))
                then raise_io (RuntimeError EBUSY) s'
                else (Inr (),
                      s'\<lparr>fs := graft t (m_covered m) @ hide t (fs s),
                         mounts := filter (\<lambda>m'. \<not> strict_prefix t (m_point m'))
                                     (drop_first (\<lambda>m'. m_point m' = t) (mounts s))\<rparr>)))"

subsection \<open>Processes\<close>

text \<open>
  What the launcher cannot decide is a parameter: whether \<open>clone\<close> yields a child and
  under which process identifier, how the program started by \<open>execvp\<close> ends (\<open>None\<close>
  when the file cannot be executed), and the exit code of a child whose callback raised
  (set by the \<open>linux\<close> module).
\<close>

datatype program_end = Exits nat | Killed nat | Runs_forever

record environment =
  clone_pid :: "nat option"
  run_program :: "os_state \<Rightarrow> string \<Rightarrow> string list \<Rightarrow> program_end option"
  callback_error_exit :: nat

text \<open>\<open>os.execvp\<close>: on success the process image is replaced and the call does not return.\<close>

definition os_execvp :: "environment \<Rightarrow> string \<Rightarrow> string list \<Rightarrow> program_end io" where
  "os_execvp env file args s =
     (let s' = log (Execvp file args) s in
      case run_program env s file args of
        None \<Rightarrow> raise_io (OSError ENOENT) s'
      | Some e \<Rightarrow> (Inr e, s'))"

text \<open>
  The status word \<open>os.waitpid\<close> returns: the exit code in the high byte for a child that
  exited, the signal number in the low seven bits for a child that was killed.
\<close>

definition wait_status :: "environment \<Rightarrow> exn + program_end \<Rightarrow> nat option" where
  "wait_status env r =
     (case r of
        Inl e \<Rightarrow> Some ((callback_error_exit env mod 256) * 256)
      | Inr (Exits c) \<Rightarrow> Some ((c mod 256) * 256)
      | Inr (Killed sig) \<Rightarrow> Some (sig mod 128)
      | Inr Runs_forever \<Rightarrow> None)"

section \<open>The container executer\<close>

text \<open>\<open>'%d' % i\<close> for a natural number.\<close>

function format_d :: "nat \<Rightarrow> string" where
  "format_d n =
     (if n < 10 then [''0123456789'' ! n]
      else format_d (n div 10) @ [''0123456789'' ! (n mod 10)])"
  by pat_completeness auto
termination
  by (relation "measure id") auto

declare format_d.simps [simp del]

text \<open>
  The loop \<open>for d in (...): if not os.path.exists(d): os.makedirs(d)\<close>, which
  \<open>_create_container_root_dir\<close> and \<open>_init_system_dir\<close> both run.
\<close>

fun make_missing_dirs :: "string list \<Rightarrow> unit io" where
  "make_missing_dirs [] = return_io ()"
| "make_missing_dirs (d # ds) =
     bind_io (os_path_exists d)
       (\<lambda>there. then_io (if there then return_io () else os_makedirs d)
                  (make_missing_dirs ds))"

definition create_container_root_dir :: "string \<Rightarrow> ContainerDir io" where
  "create_container_root_dir cid =
     (let container_data_base_dir = get_container_data_base_path cid CONTAINER_DATA_DIR;
          container_rootfs_dir = os_path_join container_data_base_dir ''rootfs'';
          container_cow_rw_dir = os_path_join container_data_base_dir ''cow_rw'';
          container_cow_workdir = os_path_join container_data_base_dir ''cow_workdir''
      in then_io
           (make_missing_dirs [container_rootfs_dir, container_cow_rw_dir, container_cow_workdir])
           (return_io \<lparr>root_dir = container_rootfs_dir,
                       rw_dir = container_cow_rw_dir,
                       work_dir = container_cow_workdir\<rparr>))"

definition mount_image_dir :: "Image \<Rightarrow> ContainerDir \<Rightarrow> unit io" where
  "mount_image_dir img container_dir =
     (let image_path = get_image_base_path img IMAGE_DATA_DIR;
          image_root = os_path_join image_path ''layers/contents''
      in linux_mount (Some ''overlay'') (root_dir container_dir) (Some ''overlay'') MS_NODEV
           (Some (''lowerdir='' @ image_root @ '',upperdir='' @ rw_dir container_dir
                    @ '',workdir='' @ work_dir container_dir)))"

fun symlink_loop :: "string \<Rightarrow> (nat \<times> string) list \<Rightarrow> unit io" where
  "symlink_loop dev_path [] = return_io ()"
| "symlink_loop dev_path ((i, dev) # rest) =
     then_io (os_symlink (''/proc/self/fd/'' @ format_d i) (os_path_join dev_path dev))
       (symlink_loop dev_path rest)"

text \<open>The dictionary \<open>devices\<close>, in the order of its insertion, which is its iteration order.\<close>

definition devices :: "(string \<times> nat \<times> nat \<times> nat) list" where
  "devices =
     [(''null'', S_IFCHR, 1, 3),
      (''zero'', S_IFCHR, 1, 5),
      (''random'', S_IFCHR, 1, 8),
      (''urandom'', S_IFCHR, 1, 9),
      (''console'', S_IFCHR, 136, 1),
      (''tty'', S_IFCHR, 5, 0),
      (''full'', S_IFCHR, 1, 7)]"

fun mknod_loop :: "string \<Rightarrow> (string \<times> nat \<times> nat \<times> nat) list \<Rightarrow> unit io" where
  "mknod_loop dev_path [] = return_io ()"
| "mknod_loop dev_path ((device, dev_type, major, minor) # rest) =
     then_io (os_mknod (os_path_join dev_path device) (438 OR dev_type) (os_makedev major minor))
       (mknod_loop dev_path rest)"

definition init_devices :: "string \<Rightarrow> unit io" where
  "init_devices dev_path =
     then_io (symlink_loop dev_path (enumerate 0 [''stdin'', ''stdout'', ''stderr'']))
    (then_io (os_symlink ''/proc/self/fd'' (os_path_join dev_path ''fd''))
             (mknod_loop dev_path devices))"

definition init_system_dir :: "string \<Rightarrow> unit io" where
  "init_system_dir container_root_dir =
     (let proc_dir = os_path_join container_root_dir ''proc'';
          sysfs_dir = os_path_join container_root_dir ''sys'';
          dev_dir = os_path_join container_root_dir ''dev'';
          devpts_path = os_path_join3 container_root_dir ''dev'' ''pts''
      in then_io (make_missing_dirs [proc_dir, sysfs_dir, dev_dir])
        (then_io (linux_mount (Some ''proc'') proc_dir (Some ''proc'') 0 (Some []))
        (then_io (linux_mount (Some ''sysfs'') sysfs_dir (Some ''sysfs'') 0 (Some []))
        (then_io (linux_mount (Some ''tmpfs'') dev_dir (Some ''tmpfs'')
                    (MS_NOSUID OR MS_STRICTATIME) (Some ''mode=755''))
        (bind_io (os_path_exists devpts_path)
           (\<lambda>there.
              then_io
                (if there then return_io ()
                 else then_io (os_makedirs devpts_path)
                        (linux_mount (Some ''devpts'') devpts_path (Some ''devpts'') 0 (Some [])))
                (init_devices (os_path_join container_root_dir ''dev''))))))))"

definition change_root_dir :: "string \<Rightarrow> unit io" where
  "change_root_dir container_root_dir =
     (let old_root = os_path_join container_root_dir ''old_root''
      in then_io (os_makedirs old_root)
        (then_io (linux_pivot_root container_root_dir old_root)
        (then_io (os_chdir ''/'')
        (then_io (linux_umount2 ''/old_root'' MNT_DETACH)
                 (os_rmdir ''/old_root'')))))"

text \<open>
  \<open>ContainerExecuter.execute\<close>, the callback that runs in the child. Its last statement
  replaces the process image, so a run without an exception ends as the started program
  ends. \<open>command[0]\<close> raises \<open>IndexError\<close> on an empty command.
\<close>

definition ContainerExecuter_execute :: "environment \<Rightarrow> ContainerInitParams \<Rightarrow> program_end io" where
  "ContainerExecuter_execute env init_params =
     then_io (linux_sethostname (container_id init_params))
    (then_io (linux_mount None ''/'' None (MS_PRIVATE OR MS_REC) None)
    (bind_io (create_container_root_dir (container_id init_params))
       (\<lambda>container_dir.
     then_io (py_print (Created_root_fs container_dir))
    (then_io (mount_image_dir (p_image init_params) container_dir)
    (then_io (init_system_dir (root_dir container_dir))
    (then_io (change_root_dir (root_dir container_dir))
       (case command init_params of
          [] \<Rightarrow> raise_io IndexError
        | c # _ \<Rightarrow> os_execvp env c (command init_params))))))))"

section \<open>The launcher\<close>

text \<open>
  \<open>RunCommand.execute\<close>. \<open>linux.clone\<close> starts the callback in a child that has its own
  copy of the caller's view (new mount, UTS, PID and network namespaces); the parent then
  waits for it. A launch is described by its timeline, the calls of both processes in the
  order in which they complete, and by what the parent's call does: \<open>None\<close> when it never
  returns because the child never ends, otherwise the exception it raises or its normal
  return (the method has no return statement, so it returns Python's \<open>None\<close>).
\<close>

datatype proc = Parent | Child

record launch =
  timeline :: "(proc \<times> event) list"
  returned :: "(exn + unit) option"

definition clone_flags :: nat where
  "clone_flags = CLONE_NEWPID OR CLONE_NEWNS OR CLONE_NEWUTS OR CLONE_NEWNET"

definition RunCommand_execute :: "environment \<Rightarrow> ContainerInitParams \<Rightarrow> os_state \<Rightarrow> launch" where
  "RunCommand_execute env init_params s =
     (case clone_pid env of
        None \<Rightarrow>
          \<lparr>timeline = [(Parent, Clone clone_flags)], returned = Some (Inl (RuntimeError EINVAL))\<rparr>
      | Some pid \<Rightarrow>
          (case ContainerExecuter_execute env init_params (s\<lparr>trace := []\<rparr>) of
             (r, child) \<Rightarrow>
               (case wait_status env r of
                  None \<Rightarrow>
                    \<lparr>timeline = (Parent, Clone clone_flags) # map (Pair Child) (trace child),
                     returned = None\<rparr>
                | Some status \<Rightarrow>
                    \<lparr>timeline = (Parent, Clone clone_flags) # map (Pair Child) (trace child)
                                 @ [(Parent, Waitpid pid 0),
                                    (Parent, Print (Exited_with_status pid status))],
                     returned = Some (Inr ())\<rparr>)))"

section \<open>Tables used in the statements\<close>

text \<open>
  What device initialisation is expected to put below the device directory \<open>d\<close>, written
  out with the numbers (\<open>8630\<close> is octal \<open>020666\<close>), and the calls it is expected to make
  for the path string \<open>x\<close> of that directory.
\<close>

definition dev_entries :: "path \<Rightarrow> fs_table" where
  "dev_entries d =
     [(d @ [''full''], Special 8630 263),
      (d @ [''tty''], Special 8630 1280),
      (d @ [''console''], Special 8630 34817),
      (d @ [''urandom''], Special 8630 265),
      (d @ [''random''], Special 8630 264),
      (d @ [''zero''], Special 8630 261),
      (d @ [''null''], Special 8630 259),
      (d @ [''fd''], Link ''/proc/self/fd''),
      (d @ [''stderr''], Link ''/proc/self/fd/2''),
      (d @ [''stdout''], Link ''/proc/self/fd/1''),
      (d @ [''stdin''], Link ''/proc/self/fd/0'')]"

definition dev_calls :: "string \<Rightarrow> event list" where
  "dev_calls x =
     [Symlink ''/proc/self/fd/0'' (os_path_join x ''stdin''),
      Symlink ''/proc/self/fd/1'' (os_path_join x ''stdout''),
      Symlink ''/proc/self/fd/2'' (os_path_join x ''stderr''),
      Symlink ''/proc/self/fd'' (os_path_join x ''fd''),
      Mknod (os_path_join x ''null'') 8630 259,
      Mknod (os_path_join x ''zero'') 8630 261,
      Mknod (os_path_join x ''random'') 8630 264,
      Mknod (os_path_join x ''urandom'') 8630 265,
      Mknod (os_path_join x ''console'') 8630 34817,
      Mknod (os_path_join x ''tty'') 8630 1280,
      Mknod (os_path_join x ''full'') 8630 263]"

section \<open>Laws of the model\<close>

subsection \<open>Sequencing\<close>

lemma return_io_eq: "return_io x s = (r, s') \<longleftrightarrow> r = Inr x \<and> s' = s"
  by (auto simp: return_io_def)

lemma bind_io_Inr:
  "bind_io m k s = (Inr v, s'') \<longleftrightarrow> (\<exists>x s'. m s = (Inr x, s') \<and> k x s' = (Inr v, s''))"
  by (cases "m s") (auto simp: bind_io_def split: sum.splits)

lemma then_io_Inr:
  "then_io m k s = (Inr v, s'') \<longleftrightarrow> (\<exists>s'. m s = (Inr (), s') \<and> k s' = (Inr v, s''))"
  by (simp add: then_io_def bind_io_Inr)

lemma bind_io_Inl:
  "m s = (Inl e, s') \<Longrightarrow> bind_io m k s = (Inl e, s')"
  by (simp add: bind_io_def)

lemma bind_io_step:
  "m s = (Inr x, s') \<Longrightarrow> bind_io m k s = k x s'"
  by (simp add: bind_io_def)

lemma then_io_Inl:
  "m s = (Inl e, s') \<Longrightarrow> then_io m k s = (Inl e, s')"
  by (simp add: then_io_def bind_io_def)

lemma then_io_step:
  "m s = (Inr u, s') \<Longrightarrow> then_io m k s = k s'"
  by (simp add: then_io_def bind_io_def)

subsection \<open>Splitting and resolving\<close>

lemma split_at_append:
  "split_at c cur (a @ c # b) = split_at c cur a @ split_at c [] b"
  by (induction a arbitrary: cur) auto

lemma split_at_none: "c \<notin> set a \<Longrightarrow> split_at c cur a = [cur @ a]"
  by (induction a arbitrary: cur) auto

lemma step_component_simple: "simple_name n \<Longrightarrow> step_component p n = p @ [n]"
  by (simp add: simple_name_def step_component_def)

lemma step_component_empty: "step_component p [] = p"
  by (simp add: step_component_def)

lemma resolve_slash_child:
  assumes "x \<noteq> []" and "simple_name n"
  shows "resolve wd (x @ CHR ''/'' # n) = map_option (\<lambda>p. p @ [n]) (resolve wd x)"
proof -
  from assms(2) have n: "CHR ''/'' \<notin> set n" by (simp add: simple_name_def)
  have "split_at CHR ''/'' [] (x @ CHR ''/'' # n) = split_at CHR ''/'' [] x @ [n]"
    by (simp add: split_at_append split_at_none [OF n])
  moreover have "hd (x @ CHR ''/'' # n) = hd x" using assms(1) by simp
  ultimately show ?thesis
    using assms by (simp add: resolve_def step_component_simple)
qed

lemma resolve_trailing_slash_child:
  assumes "x \<noteq> []" and "last x = CHR ''/''" and "simple_name n"
  shows "resolve wd (x @ n) = map_option (\<lambda>p. p @ [n]) (resolve wd x)"
proof -
  from assms(1,2) obtain y where x: "x = y @ ''/''"
    by (metis append_butlast_last_id)
  from assms(3) have n: "CHR ''/'' \<notin> set n" by (simp add: simple_name_def)
  have a: "split_at CHR ''/'' [] (x @ n) = split_at CHR ''/'' [] y @ [n]"
    unfolding x by (simp add: split_at_append split_at_none [OF n])
  have b: "split_at CHR ''/'' [] x = split_at CHR ''/'' [] y @ [[]]"
    unfolding x by (simp add: split_at_append)
  have "hd (x @ n) = hd x" using assms(1) by simp
  then show ?thesis
    using assms(1) a b
    by (simp add: resolve_def step_component_simple [OF assms(3)] step_component_empty)
qed

text \<open>A simple name joined to a path names the child of that name.\<close>

lemma resolve_join:
  assumes "x \<noteq> []" and "simple_name n"
  shows "resolve wd (os_path_join x n) = map_option (\<lambda>p. p @ [n]) (resolve wd x)"
proof -
  from assms(2) have ne: "n \<noteq> []" and sl: "CHR ''/'' \<notin> set n"
    by (simp_all add: simple_name_def)
  from ne have "hd n \<in> set n" by (rule hd_in_set)
  with sl have "hd n \<noteq> CHR ''/''" by auto
  with ne have "n \<noteq> []" "hd n \<noteq> CHR ''/''" by simp_all
  then show ?thesis
    using assms resolve_slash_child resolve_trailing_slash_child
    by (auto simp: os_path_join_def)
qed

lemma os_path_join_nonempty: "simple_name n \<Longrightarrow> os_path_join x n \<noteq> []"
  by (auto simp: os_path_join_def simple_name_def)

lemma resolve_Some_nonempty: "resolve wd x = Some p \<Longrightarrow> x \<noteq> []"
  by (auto simp: resolve_def split: if_splits)

subsection \<open>Tables\<close>

lemma strict_prefix_append_iff: "strict_prefix t (t @ z) \<longleftrightarrow> z \<noteq> []"
  by (auto simp: strict_prefix_def)

lemma map_of_new_dirs:
  "map_of (map (\<lambda>q. (q, Dir)) qs) x = (if x \<in> set qs then Some Dir else None)"
  by (induction qs) auto

lemma lookup_Nil [simp]: "lookup f [] = Some Dir"
  by (simp add: lookup_def)

lemma lookup_Cons:
  "lookup ((p, n) # f) q = (if q = [] then Some Dir else if q = p then Some n else lookup f q)"
  by (simp add: lookup_def)

lemma lookup_append:
  "lookup (a @ b) q =
     (if q = [] then Some Dir else case map_of a q of None \<Rightarrow> lookup b q | Some n \<Rightarrow> Some n)"
  by (auto simp: lookup_def map_add_def split: option.splits)

lemma map_of_hide:
  "map_of (hide t f) q = (if strict_prefix t q then None else map_of f q)"
  by (induction f) (auto simp: hide_def)

lemma lookup_hide:
  "lookup (hide t f) q = (if strict_prefix t q then None else lookup f q)"
  by (auto simp: lookup_def map_of_hide)

lemma subtree_Cons:
  "subtree t ((q, n) # f) =
     (if strict_prefix t q then (drop (length t) q, n) # subtree t f else subtree t f)"
  by (simp add: subtree_def)

lemma graft_Cons:
  "graft t ((r, n) # rel) = (if r \<noteq> [] then (t @ r, n) # graft t rel else graft t rel)"
  by (simp add: graft_def)

lemma map_of_subtree:
  "map_of (subtree t f) r = (if r = [] then None else map_of f (t @ r))"
proof (induction f)
  case Nil
  show ?case by (simp add: subtree_def)
next
  case (Cons e f)
  obtain q n where e: "e = (q, n)" by (cases e)
  show ?case
  proof (cases "strict_prefix t q")
    case True
    then obtain z where q: "q = t @ z" and z: "z \<noteq> []"
      by (auto simp: strict_prefix_def prefix_def)
    show ?thesis using Cons.IH z by (auto simp: subtree_Cons graft_Cons e q strict_prefix_append_iff)
  next
    case False
    then have "r \<noteq> [] \<Longrightarrow> q \<noteq> t @ r" by (auto simp: strict_prefix_def)
    then show ?thesis using Cons.IH False by (auto simp: subtree_Cons graft_Cons e)
  qed
qed

lemma map_of_graft:
  "map_of (graft t rel) q =
     (if strict_prefix t q then map_of rel (drop (length t) q) else None)"
proof (induction rel)
  case Nil
  show ?case by (simp add: graft_def)
next
  case (Cons e rel)
  obtain r n where e: "e = (r, n)" by (cases e)
  show ?case
  proof (cases "strict_prefix t q")
    case True
    then obtain z where q: "q = t @ z" and z: "z \<noteq> []"
      by (auto simp: strict_prefix_def prefix_def)
    show ?thesis using Cons.IH z by (auto simp: subtree_Cons graft_Cons e q strict_prefix_append_iff)
  next
    case False
    then have "r \<noteq> [] \<Longrightarrow> q \<noteq> t @ r" by (auto simp: strict_prefix_def)
    then show ?thesis using Cons.IH False by (auto simp: subtree_Cons graft_Cons e)
  qed
qed

lemma graft_Nil [simp]: "graft t [] = []"
  by (simp add: graft_def)

subsection \<open>What each call leaves behind\<close>

lemma log_fields [simp]:
  "fs (log e s) = fs s" "mounts (log e s) = mounts s" "cwd (log e s) = cwd s"
  "propagation (log e s) = propagation s" "hostname (log e s) = hostname s"
  "trace (log e s) = trace s @ [e]"
  by (simp_all add: log_def)

lemma os_path_exists_eq:
  "os_path_exists name s = (r, s') \<longleftrightarrow> r = Inr (path_exists s name) \<and> s' = log (Exists name) s"
  by (auto simp: os_path_exists_def)

lemma os_makedirs_frame:
  assumes "os_makedirs name s = (r, s')"
  shows "trace s' = trace s @ [Makedirs name]" and "cwd s' = cwd s"
    and "mounts s' = mounts s" and "propagation s' = propagation s"
  using assms
  by (auto simp: os_makedirs_def raise_io_def Let_def split: option.splits if_splits)

lemma os_makedirs_Inr:
  assumes "os_makedirs name s = (Inr u, s')"
  shows "\<exists>p. resolve (cwd s) name = Some p \<and> lookup (fs s) p = None
           \<and> (\<forall>q. lookup (fs s') q =
                 (if prefix q p \<and> lookup (fs s) q = None then Some Dir else lookup (fs s) q))"
proof -
  from assms obtain p where p: "resolve (cwd s) name = Some p" "lookup (fs s) p = None"
    and f: "fs s' = map (\<lambda>q. (q, Dir)) (filter (\<lambda>q. lookup (fs s) q = None) (prefixes p)) @ fs s"
    by (auto simp: os_makedirs_def raise_io_def Let_def split: option.splits if_splits)
  have "lookup (fs s') q =
          (if prefix q p \<and> lookup (fs s) q = None then Some Dir else lookup (fs s) q)" for q
    unfolding f by (auto simp: lookup_append map_of_new_dirs in_set_prefixes)
  with p show ?thesis by blast
qed

lemma os_makedirs_exists:
  assumes "path_exists s name"
  shows "os_makedirs name s = (Inl FileExistsError, log (Makedirs name) s)"
  using assms
  by (auto simp: os_makedirs_def path_exists_def raise_io_def Let_def split: option.splits)

lemma create_entry_frame:
  assumes "create_entry ev name n s = (r, s')"
  shows "trace s' = trace s @ [ev]" and "cwd s' = cwd s"
    and "mounts s' = mounts s" and "propagation s' = propagation s"
  using assms
  by (auto simp: create_entry_def raise_io_def Let_def split: option.splits if_splits)

lemma create_entry_Inr:
  assumes "create_entry ev name n s = (Inr u, s')"
  obtains p where "resolve (cwd s) name = Some p" and "p \<noteq> []" and "lookup (fs s) p = None"
    and "fs s' = (p, n) # fs s"
  using assms
  by (auto simp: create_entry_def raise_io_def Let_def split: option.splits if_splits)

lemma create_entry_ok:
  assumes "resolve (cwd s) name = Some p" and "p \<noteq> []"
    and "lookup (fs s) (butlast p) = Some Dir" and "lookup (fs s) p = None"
  shows "create_entry ev name n s = (Inr (), (log ev s)\<lparr>fs := (p, n) # fs s\<rparr>)"
  using assms by (simp add: create_entry_def Let_def)

lemma linux_mount_frame:
  assumes "linux_mount src target fstype flags data s = (r, s')"
  shows "trace s' = trace s @ [Mount src target fstype flags data]" and "cwd s' = cwd s"
  using assms
  by (auto simp: linux_mount_def raise_io_def Let_def split: option.splits if_splits sum.splits)

lemma linux_mount_Inl:
  assumes "linux_mount src target fstype flags data s = (Inl e, s')"
  shows "\<exists>n. e = RuntimeError n"
  using assms
  by (auto simp: linux_mount_def raise_io_def Let_def split: option.splits if_splits sum.splits)

text \<open>A successful mount of one of the file systems that start out empty.\<close>

lemma linux_mount_fresh:
  assumes "linux_mount src target (Some ty) flags data s = (Inr u, s')"
    and "flags AND MS_PRIVATE = 0"
    and "ty = ''tmpfs'' \<or> ty = ''proc'' \<or> ty = ''sysfs'' \<or> ty = ''devpts''"
  obtains t where "resolve (cwd s) target = Some t" and "lookup (fs s) t = Some Dir"
    and "fs s' = hide t (fs s)"
    and "mounts s' = \<lparr>m_point = t, m_fstype = ty, m_flags = flags,
                       m_data = (case data of None \<Rightarrow> [] | Some d \<Rightarrow> d),
                       m_covered = subtree t (fs s)\<rparr> # mounts s"
proof -
  from assms(3) have nf: "new_filesystem s (Some ty) data = Inr []"
    by (auto simp: new_filesystem_def)
  from assms(1,2) nf obtain t where "resolve (cwd s) target = Some t"
    "lookup (fs s) t = Some Dir" "fs s' = hide t (fs s)"
    "mounts s' = \<lparr>m_point = t, m_fstype = ty, m_flags = flags,
                       m_data = (case data of None \<Rightarrow> [] | Some d \<Rightarrow> d),
                       m_covered = subtree t (fs s)\<rparr> # mounts s"
    by (auto simp: linux_mount_def raise_io_def Let_def split: option.splits if_splits)
  then show thesis by (rule that)
qed

lemma os_chdir_Inr:
  assumes "os_chdir name s = (Inr u, s')"
  obtains p where "resolve (cwd s) name = Some p" and "s' = (log (Chdir name) s)\<lparr>cwd := p\<rparr>"
  using assms
  by (auto simp: os_chdir_def raise_io_def Let_def split: option.splits if_splits)

lemma os_rmdir_Inr:
  assumes "os_rmdir name s = (Inr u, s')"
  obtains p where "resolve (cwd s) name = Some p" and "p \<noteq> []"
    and "\<not> list_ex (\<lambda>(q, n). strict_prefix p q) (fs s)"
    and "s' = (log (Rmdir name) s)\<lparr>fs := filter (\<lambda>(q, n). q \<noteq> p) (fs s)\<rparr>"
  using assms
  by (auto simp: os_rmdir_def raise_io_def Let_def split: option.splits if_splits)

lemma linux_umount2_Inr:
  assumes "linux_umount2 target flags s = (Inr u, s')"
  obtains t m where "resolve (cwd s) target = Some t" and "mounted_at s t = Some m"
    and "s' = (log (Umount2 target flags) s)
               \<lparr>fs := graft t (m_covered m) @ hide t (fs s),
                mounts := filter (\<lambda>m'. \<not> strict_prefix t (m_point m'))
                            (drop_first (\<lambda>m'. m_point m' = t) (mounts s))\<rparr>"
  using assms
  by (auto simp: linux_umount2_def raise_io_def Let_def split: option.splits if_splits)

lemma linux_pivot_root_Inr:
  assumes "linux_pivot_root new_root put_old s = (Inr u, s')"
  obtains nr po mn mr where "resolve (cwd s) new_root = Some nr"
    and "resolve (cwd s) put_old = Some po" and "nr \<noteq> []" and "prefix nr po"
    and "lookup (fs s) nr = Some Dir" and "lookup (fs s) po = Some Dir"
    and "propagation s = Private"
    and "mounted_at s nr = Some mn" and "mounted_at s [] = Some mr"
    and "s' = (log (Pivot_root new_root put_old) s)
               \<lparr>fs := graft (drop (length nr) po) (hide nr (fs s) @ graft nr (m_covered mn))
                        @ hide (drop (length nr) po) (subtree nr (fs s)),
                mounts := mr\<lparr>m_point := drop (length nr) po,
                             m_covered := subtree (drop (length nr) po) (subtree nr (fs s))\<rparr>
                          # map (\<lambda>m. m\<lparr>m_point := rebase nr (drop (length nr) po) (m_point m)\<rparr>)
                              (drop_first (\<lambda>m. m_point m = []) (mounts s)),
                cwd := (if cwd s = [] then [] else rebase nr (drop (length nr) po) (cwd s))\<rparr>"
proof -
  from assms obtain nr po where r: "resolve (cwd s) new_root = Some nr"
    "resolve (cwd s) put_old = Some po"
    by (auto simp: linux_pivot_root_def raise_io_def Let_def split: option.splits)
  from assms r have c: "nr \<noteq> []" "prefix nr po" "lookup (fs s) nr = Some Dir"
    "lookup (fs s) po = Some Dir" "propagation s = Private"
    by (auto simp: linux_pivot_root_def raise_io_def Let_def
        split: option.splits if_splits propagation.splits intro: propagation.exhaust)
  from assms r c obtain mn mr where m: "mounted_at s nr = Some mn" "mounted_at s [] = Some mr"
    by (auto simp: linux_pivot_root_def raise_io_def Let_def split: option.splits if_splits)
  from assms r c m have "s' = (log (Pivot_root new_root put_old) s)
               \<lparr>fs := graft (drop (length nr) po) (hide nr (fs s) @ graft nr (m_covered mn))
                        @ hide (drop (length nr) po) (subtree nr (fs s)),
                mounts := mr\<lparr>m_point := drop (length nr) po,
                             m_covered := subtree (drop (length nr) po) (subtree nr (fs s))\<rparr>
                          # map (\<lambda>m. m\<lparr>m_point := rebase nr (drop (length nr) po) (m_point m)\<rparr>)
                              (drop_first (\<lambda>m. m_point m = []) (mounts s)),
                cwd := (if cwd s = [] then [] else rebase nr (drop (length nr) po) (cwd s))\<rparr>"
    by (auto simp: linux_pivot_root_def raise_io_def Let_def split: if_splits)
  with r c m show thesis by (rule that)
qed

subsection \<open>The directory loop\<close>

lemma path_exists_log [simp]: "path_exists (log e s) d = path_exists s d"
  by (simp add: path_exists_def split: option.splits)

lemma path_exists_trace_update [simp]: "path_exists (s\<lparr>trace := t\<rparr>) d = path_exists s d"
  by (simp add: path_exists_def split: option.splits)

lemma os_makedirs_path_exists:
  assumes "os_makedirs d s = (Inr u, s')"
  shows "path_exists s' d" and "path_exists s x \<Longrightarrow> path_exists s' x"
proof -
  from os_makedirs_Inr [OF assms] obtain p where p: "resolve (cwd s) d = Some p"
    "lookup (fs s) p = None"
    and l: "\<And>q. lookup (fs s') q =
           (if prefix q p \<and> lookup (fs s) q = None then Some Dir else lookup (fs s) q)"
    by blast
  have c: "cwd s' = cwd s" using assms by (rule os_makedirs_frame)
  show "path_exists s' d" using p by (simp add: path_exists_def c l)
  show "path_exists s x \<Longrightarrow> path_exists s' x"
    by (auto simp: path_exists_def c l split: option.splits)
qed

lemma make_missing_dirs_Inr_all:
  "make_missing_dirs ds s = (Inr u, s') \<Longrightarrow>
     cwd s' = cwd s \<and> (\<forall>d\<in>set ds. path_exists s' d)
       \<and> (\<forall>x. path_exists s x \<longrightarrow> path_exists s' x)"
proof (induction ds arbitrary: s)
  case Nil
  then show ?case by (simp add: return_io_eq)
next
  case (Cons d ds)
  from Cons.prems obtain s1 where
    s1: "(if path_exists s d then return_io () else os_makedirs d) (log (Exists d) s) = (Inr (), s1)"
    and rest: "make_missing_dirs ds s1 = (Inr u, s')"
    by (auto simp: bind_io_Inr then_io_Inr os_path_exists_eq)
  have c1: "cwd s1 = cwd s"
    using s1 os_makedirs_frame(2) [of d "log (Exists d) s" "Inr ()" s1]
    by (auto simp: return_io_eq split: if_splits)
  have d1: "path_exists s1 d"
    using s1 os_makedirs_path_exists(1) [of d "log (Exists d) s" "()" s1]
    by (auto simp: return_io_eq split: if_splits)
  have k1: "path_exists s y \<Longrightarrow> path_exists s1 y" for y
    using s1 os_makedirs_path_exists(2) [of d "log (Exists d) s" "()" s1 y]
    by (auto simp: return_io_eq split: if_splits)
  from Cons.IH [OF rest] c1 d1 k1 show ?case by auto
qed

lemma make_missing_dirs_Inr:
  assumes "make_missing_dirs ds s = (Inr u, s')"
  shows "cwd s' = cwd s" and "\<forall>d\<in>set ds. path_exists s' d"
    and "path_exists s x \<Longrightarrow> path_exists s' x"
  using make_missing_dirs_Inr_all [OF assms] by auto

lemma make_missing_dirs_all_there:
  assumes "\<forall>d\<in>set ds. path_exists s d"
  shows "make_missing_dirs ds s = (Inr (), s\<lparr>trace := trace s @ map Exists ds\<rparr>)"
  using assms
proof (induction ds arbitrary: s)
  case Nil
  show ?case by (simp add: return_io_def)
next
  case (Cons d ds)
  then have d: "path_exists s d" and ds: "\<forall>x\<in>set ds. path_exists (log (Exists d) s) x"
    by simp_all
  have "make_missing_dirs (d # ds) s = make_missing_dirs ds (log (Exists d) s)"
    using d by (simp add: bind_io_def then_io_def os_path_exists_def return_io_def)
  also have "\<dots> = (Inr (), (log (Exists d) s)\<lparr>trace := trace (log (Exists d) s) @ map Exists ds\<rparr>)"
    using ds by (rule Cons.IH)
  also have "(log (Exists d) s)\<lparr>trace := trace (log (Exists d) s) @ map Exists ds\<rparr>
               = s\<lparr>trace := trace s @ map Exists (d # ds)\<rparr>"
    by (simp add: log_def)
  finally show ?case .
qed

lemma create_container_root_dir_Inr:
  assumes "create_container_root_dir cid s = (Inr cd, s')"
  shows "cd = \<lparr>root_dir = os_path_join (os_path_join CONTAINER_DATA_DIR cid) ''rootfs'',
               rw_dir = os_path_join (os_path_join CONTAINER_DATA_DIR cid) ''cow_rw'',
               work_dir = os_path_join (os_path_join CONTAINER_DATA_DIR cid) ''cow_workdir''\<rparr>"
    and "path_exists s' (root_dir cd)" and "path_exists s' (rw_dir cd)"
    and "path_exists s' (work_dir cd)"
proof -
  let ?b = "os_path_join CONTAINER_DATA_DIR cid"
  from assms have cd: "cd = \<lparr>root_dir = os_path_join ?b ''rootfs'',
               rw_dir = os_path_join ?b ''cow_rw'', work_dir = os_path_join ?b ''cow_workdir''\<rparr>"
    and m: "make_missing_dirs [os_path_join ?b ''rootfs'', os_path_join ?b ''cow_rw'',
              os_path_join ?b ''cow_workdir''] s = (Inr (), s')"
    by (auto simp: create_container_root_dir_def get_container_data_base_path_def Let_def
        then_io_Inr return_io_eq)
  show "cd = \<lparr>root_dir = os_path_join ?b ''rootfs'',
               rw_dir = os_path_join ?b ''cow_rw'', work_dir = os_path_join ?b ''cow_workdir''\<rparr>"
    by (rule cd)
  from make_missing_dirs_Inr(2) [OF m]
  show "path_exists s' (root_dir cd)" "path_exists s' (rw_dir cd)" "path_exists s' (work_dir cd)"
    by (simp_all add: cd)
qed

lemma create_container_root_dir_again:
  assumes "create_container_root_dir cid s = (Inr cd, s')"
  shows "create_container_root_dir cid s'
           = (Inr cd, s'\<lparr>trace := trace s' @ [Exists (root_dir cd), Exists (rw_dir cd),
                                               Exists (work_dir cd)]\<rparr>)"
proof -
  note f = create_container_root_dir_Inr [OF assms]
  let ?b = "os_path_join CONTAINER_DATA_DIR cid"
  have "\<forall>d\<in>set [root_dir cd, rw_dir cd, work_dir cd]. path_exists s' d"
    using f(2-4) by simp
  from make_missing_dirs_all_there [OF this]
  have "make_missing_dirs [os_path_join ?b ''rootfs'', os_path_join ?b ''cow_rw'',
              os_path_join ?b ''cow_workdir''] s'
          = (Inr (), s'\<lparr>trace := trace s' @ [Exists (root_dir cd), Exists (rw_dir cd),
                                               Exists (work_dir cd)]\<rparr>)"
    by (simp add: f(1))
  then show ?thesis
    by (simp add: create_container_root_dir_def get_container_data_base_path_def Let_def
        then_io_def bind_io_def return_io_def f(1))
qed

lemma container_paths_literal:
  assumes "cid \<noteq> []" and "hd cid \<noteq> CHR ''/''" and "last cid \<noteq> CHR ''/''"
  shows "os_path_join (os_path_join CONTAINER_DATA_DIR cid) n
           = (if n \<noteq> [] \<and> hd n = CHR ''/'' then n
              else ''/var/opt/app/container/'' @ cid @ ''/'' @ n)"
  using assms by (simp add: os_path_join_def CONTAINER_DATA_DIR_def)

subsection \<open>Device initialisation\<close>

lemma create_child:
  assumes "create_entry ev (os_path_join x n) nd s = (Inr u, s')"
    and "resolve (cwd s) x = Some d" and "simple_name n"
  shows "fs s' = (d @ [n], nd) # fs s" and "cwd s' = cwd s" and "mounts s' = mounts s"
    and "trace s' = trace s @ [ev]" and "lookup (fs s) (d @ [n]) = None"
proof -
  from assms(2) have x: "x \<noteq> []" by (rule resolve_Some_nonempty)
  have r: "resolve (cwd s) (os_path_join x n) = Some (d @ [n])"
    using resolve_join [OF x assms(3), of "cwd s"] assms(2) by simp
  from assms(1) obtain p where p: "resolve (cwd s) (os_path_join x n) = Some p"
    "lookup (fs s) p = None" "fs s' = (p, nd) # fs s"
    by (rule create_entry_Inr)
  from p r show "fs s' = (d @ [n], nd) # fs s" "lookup (fs s) (d @ [n]) = None" by simp_all
  from assms(1) show "cwd s' = cwd s" "mounts s' = mounts s" "trace s' = trace s @ [ev]"
    by (rule create_entry_frame)+
qed

lemma symlink_loop_Inr:
  assumes "symlink_loop x xs s = (Inr u, s')" and "resolve (cwd s) x = Some d"
    and "\<forall>(i, n)\<in>set xs. simple_name n"
  shows "fs s' = rev (map (\<lambda>(i, n). (d @ [n], Link (''/proc/self/fd/'' @ format_d i))) xs) @ fs s
         \<and> cwd s' = cwd s \<and> mounts s' = mounts s
         \<and> trace s' = trace s @ map (\<lambda>(i, n). Symlink (''/proc/self/fd/'' @ format_d i)
                                               (os_path_join x n)) xs"
  using assms
proof (induction xs arbitrary: s)
  case Nil
  then show ?case by (simp add: return_io_eq)
next
  case (Cons a xs)
  obtain i n where a: "a = (i, n)" by (cases a)
  from Cons.prems(1) obtain s1 where
    one: "create_entry (Symlink (''/proc/self/fd/'' @ format_d i) (os_path_join x n))
            (os_path_join x n) (Link (''/proc/self/fd/'' @ format_d i)) s = (Inr (), s1)"
    and rest: "symlink_loop x xs s1 = (Inr u, s')"
    by (auto simp: a then_io_Inr os_symlink_def)
  from Cons.prems(3) have n: "simple_name n" and ns: "\<forall>(i, n)\<in>set xs. simple_name n"
    by (simp_all add: a)
  note c = create_child [OF one Cons.prems(2) n]
  from Cons.prems(2) c(2) have "resolve (cwd s1) x = Some d" by simp
  from Cons.IH [OF rest this ns] c(1-4) show ?case by (simp add: a)
qed

lemma mknod_loop_Inr:
  assumes "mknod_loop x xs s = (Inr u, s')" and "resolve (cwd s) x = Some d"
    and "\<forall>(n, t, major, minor)\<in>set xs. simple_name n"
  shows "fs s' = rev (map (\<lambda>(n, t, major, minor).
                        (d @ [n], Special (438 OR t) (os_makedev major minor))) xs) @ fs s
         \<and> cwd s' = cwd s \<and> mounts s' = mounts s
         \<and> trace s' = trace s @ map (\<lambda>(n, t, major, minor).
                        Mknod (os_path_join x n) (438 OR t) (os_makedev major minor)) xs"
  using assms
proof (induction xs arbitrary: s)
  case Nil
  then show ?case by (simp add: return_io_eq)
next
  case (Cons a xs)
  obtain n t major minor where a: "a = (n, t, major, minor)" by (cases a)
  from Cons.prems(1) obtain s1 where
    one: "create_entry (Mknod (os_path_join x n) (438 OR t) (os_makedev major minor))
            (os_path_join x n) (Special (438 OR t) (os_makedev major minor)) s = (Inr (), s1)"
    and rest: "mknod_loop x xs s1 = (Inr u, s')"
    by (auto simp: a then_io_Inr os_mknod_def)
  from Cons.prems(3) have n: "simple_name n"
    and ns: "\<forall>(n, t, major, minor)\<in>set xs. simple_name n"
    by (auto simp: a)
  note c = create_child [OF one Cons.prems(2) n]
  from Cons.prems(2) c(2) have "resolve (cwd s1) x = Some d" by simp
  from Cons.IH [OF rest this ns] c(1-4) show ?case by (simp add: a)
qed

lemma format_d_digit: "n < 10 \<Longrightarrow> format_d n = [''0123456789'' ! n]"
  by (simp add: format_d.simps)

lemma device_numbers_major_1:
  "os_makedev 1 3 = 259" "os_makedev 1 5 = 261" "os_makedev 1 8 = 264" "os_makedev 1 9 = 265"
  "os_makedev 1 7 = 263"
  unfolding os_makedev_def by (simp_all del: One_nat_def)

lemma device_numbers_other:
  "os_makedev 136 1 = 34817" "os_makedev 5 0 = 1280" "(438::nat) OR S_IFCHR = 8630"
  unfolding os_makedev_def S_IFCHR_def by simp_all

lemmas device_numbers = device_numbers_major_1 device_numbers_other

lemma init_devices_Inr:
  assumes "init_devices x s = (Inr u, s')" and "resolve (cwd s) x = Some d"
  shows "fs s' = dev_entries d @ fs s" and "cwd s' = cwd s" and "mounts s' = mounts s"
    and "trace s' = trace s @ dev_calls x"
proof -
  from assms(1) obtain s1 s2 where
    a: "symlink_loop x (enumerate 0 [''stdin'', ''stdout'', ''stderr'']) s = (Inr (), s1)"
    and b: "create_entry (Symlink ''/proc/self/fd'' (os_path_join x ''fd''))
              (os_path_join x ''fd'') (Link ''/proc/self/fd'') s1 = (Inr (), s2)"
    and c: "mknod_loop x devices s2 = (Inr u, s')"
    by (auto simp: init_devices_def then_io_Inr os_symlink_def)
  have fa: "fs s1 = [(d @ [''stderr''], Link ''/proc/self/fd/2''),
                     (d @ [''stdout''], Link ''/proc/self/fd/1''),
                     (d @ [''stdin''], Link ''/proc/self/fd/0'')] @ fs s"
    and ca: "cwd s1 = cwd s" and ma: "mounts s1 = mounts s"
    and ta: "trace s1 = trace s @ [Symlink ''/proc/self/fd/0'' (os_path_join x ''stdin''),
      Symlink ''/proc/self/fd/1'' (os_path_join x ''stdout''),
      Symlink ''/proc/self/fd/2'' (os_path_join x ''stderr'')]"
    using symlink_loop_Inr [OF a assms(2)]
    by (simp_all add: simple_name_def format_d_digit)
  from assms(2) ca have r1: "resolve (cwd s1) x = Some d" by simp
  have sn: "simple_name ''fd''" by (simp add: simple_name_def)
  note cb = create_child [OF b r1 sn]
  from r1 cb(2) have r2: "resolve (cwd s2) x = Some d" by simp
  have fc: "fs s' = [(d @ [''full''], Special 8630 263),
      (d @ [''tty''], Special 8630 1280),
      (d @ [''console''], Special 8630 34817),
      (d @ [''urandom''], Special 8630 265),
      (d @ [''random''], Special 8630 264),
      (d @ [''zero''], Special 8630 261),
      (d @ [''null''], Special 8630 259)] @ fs s2"
    and cc: "cwd s' = cwd s2" and mc: "mounts s' = mounts s2"
    and tc: "trace s' = trace s2 @ [Mknod (os_path_join x ''null'') 8630 259,
      Mknod (os_path_join x ''zero'') 8630 261,
      Mknod (os_path_join x ''random'') 8630 264,
      Mknod (os_path_join x ''urandom'') 8630 265,
      Mknod (os_path_join x ''console'') 8630 34817,
      Mknod (os_path_join x ''tty'') 8630 1280,
      Mknod (os_path_join x ''full'') 8630 263]"
    using mknod_loop_Inr [OF c r2]
    by (simp_all add: devices_def simple_name_def device_numbers del: One_nat_def)
  show "fs s' = dev_entries d @ fs s" by (simp add: fc cb(1) fa dev_entries_def)
  show "cwd s' = cwd s" by (simp add: cc cb(2) ca)
  show "mounts s' = mounts s" by (simp add: mc cb(3) ma)
  show "trace s' = trace s @ dev_calls x" by (simp add: tc cb(4) ta dev_calls_def)
qed

subsection \<open>The system directories\<close>

lemma prefix_child_iff: "r \<noteq> [] \<Longrightarrow> prefix (d @ r) (d @ [n]) \<longleftrightarrow> r = [n]"
  by (cases r) (auto simp: prefix_def)

lemma map_of_dev_entries_pts: "map_of (dev_entries d) (d @ [''pts'']) = None"
  by (simp add: dev_entries_def)

lemma init_system_dir_Inr:
  assumes "init_system_dir root s = (Inr u, s')"
  shows "\<exists>d c c' rest pre.
           resolve (cwd s) (os_path_join root ''dev'') = Some d \<and> cwd s' = cwd s
         \<and> (\<forall>r. r \<noteq> [] \<longrightarrow> lookup (fs s') (d @ r)
                  = (if r = [''pts''] then Some Dir else map_of (dev_entries d) (d @ r)))
         \<and> mounts s' = \<lparr>m_point = d @ [''pts''], m_fstype = ''devpts'', m_flags = 0,
                          m_data = [], m_covered = c\<rparr>
                        # \<lparr>m_point = d, m_fstype = ''tmpfs'',
                           m_flags = MS_NOSUID OR MS_STRICTATIME, m_data = ''mode=755'',
                           m_covered = c'\<rparr> # rest
         \<and> trace s' = pre @ [Exists (os_path_join3 root ''dev'' ''pts''),
                              Makedirs (os_path_join3 root ''dev'' ''pts''),
                              Mount (Some ''devpts'') (os_path_join3 root ''dev'' ''pts'')
                                (Some ''devpts'') 0 (Some [])]
                        @ dev_calls (os_path_join root ''dev'')"
proof -
  let ?dev = "os_path_join root ''dev''"
  let ?pts = "os_path_join3 root ''dev'' ''pts''"
  from assms obtain s1 s2 s3 s4 s6 where
    m1: "make_missing_dirs [os_path_join root ''proc'', os_path_join root ''sys'', ?dev] s
           = (Inr (), s1)"
    and m2: "linux_mount (Some ''proc'') (os_path_join root ''proc'') (Some ''proc'') 0 (Some []) s1
           = (Inr (), s2)"
    and m3: "linux_mount (Some ''sysfs'') (os_path_join root ''sys'') (Some ''sysfs'') 0 (Some []) s2
           = (Inr (), s3)"
    and m4: "linux_mount (Some ''tmpfs'') ?dev (Some ''tmpfs'') (MS_NOSUID OR MS_STRICTATIME)
               (Some ''mode=755'') s3 = (Inr (), s4)"
    and m5: "(if path_exists s4 ?pts then return_io ()
              else then_io (os_makedirs ?pts)
                     (linux_mount (Some ''devpts'') ?pts (Some ''devpts'') 0 (Some [])))
               (log (Exists ?pts) s4) = (Inr (), s6)"
    and m6: "init_devices ?dev s6 = (Inr u, s')"
    by (auto simp: init_system_dir_def Let_def then_io_Inr bind_io_Inr os_path_exists_eq)
  have c1: "cwd s1 = cwd s" using m1 by (rule make_missing_dirs_Inr)
  have c2: "cwd s2 = cwd s1" using m2 by (rule linux_mount_frame)
  have c3: "cwd s3 = cwd s2" using m3 by (rule linux_mount_frame)
  have c4: "cwd s4 = cwd s3" using m4 by (rule linux_mount_frame)
  have fl: "(MS_NOSUID OR MS_STRICTATIME) AND MS_PRIVATE = 0"
    by (simp add: MS_NOSUID_def MS_STRICTATIME_def MS_PRIVATE_def)
  from m4 fl obtain d where d: "resolve (cwd s3) ?dev = Some d"
    and f4: "fs s4 = hide d (fs s3)"
    and mt4: "mounts s4 = \<lparr>m_point = d, m_fstype = ''tmpfs'',
                m_flags = MS_NOSUID OR MS_STRICTATIME, m_data = ''mode=755'',
                m_covered = subtree d (fs s3)\<rparr> # mounts s3"
    by (rule linux_mount_fresh) auto
  have dev_ne: "?dev \<noteq> []" using d by (rule resolve_Some_nonempty)
  have pts_name: "simple_name ''pts''" by (simp add: simple_name_def)
  have rp: "resolve (cwd s4) ?pts = Some (d @ [''pts''])"
    using resolve_join [OF dev_ne pts_name, of "cwd s3"] d
    by (simp add: os_path_join3_def c4)
  have hidden: "r \<noteq> [] \<Longrightarrow> lookup (fs s4) (d @ r) = None" for r
    by (simp add: f4 lookup_hide strict_prefix_append_iff)
  have "\<not> path_exists s4 ?pts"
    using hidden [of "[''pts'']"] by (simp add: path_exists_def rp)
  with m5 obtain s5 where
    m5a: "os_makedirs ?pts (log (Exists ?pts) s4) = (Inr (), s5)"
    and m5b: "linux_mount (Some ''devpts'') ?pts (Some ''devpts'') 0 (Some []) s5 = (Inr (), s6)"
    by (auto simp: then_io_Inr)
  from os_makedirs_Inr [OF m5a] rp
  have l5: "lookup (fs s5) q =
             (if prefix q (d @ [''pts'']) \<and> lookup (fs s4) q = None then Some Dir
              else lookup (fs s4) q)" for q
    by auto
  have c5: "cwd s5 = cwd s4" and mt5: "mounts s5 = mounts s4"
    and t5: "trace s5 = trace s4 @ [Exists ?pts, Makedirs ?pts]"
    using os_makedirs_frame [OF m5a] by simp_all
  have c6: "cwd s6 = cwd s5"
    and t6: "trace s6 = trace s5 @ [Mount (Some ''devpts'') ?pts (Some ''devpts'') 0 (Some [])]"
    using linux_mount_frame [OF m5b] by simp_all
  from m5b obtain t where t: "resolve (cwd s5) ?pts = Some t"
    and f6: "fs s6 = hide t (fs s5)"
    and mt6: "mounts s6 = \<lparr>m_point = t, m_fstype = ''devpts'', m_flags = 0,
                m_data = [], m_covered = subtree t (fs s5)\<rparr> # mounts s5"
    by (rule linux_mount_fresh) auto
  from t rp c5 have tp: "t = d @ [''pts'']" by simp
  have r6: "resolve (cwd s6) ?dev = Some d" using d by (simp add: c6 c5 c4)
  note dv = init_devices_Inr [OF m6 r6]
  have l6: "r \<noteq> [] \<Longrightarrow> lookup (fs s6) (d @ r) = (if r = [''pts''] then Some Dir else None)" for r
    by (auto simp: f6 tp lookup_hide l5 hidden prefix_child_iff strict_prefix_def)
  have look: "r \<noteq> [] \<Longrightarrow> lookup (fs s') (d @ r)
                = (if r = [''pts''] then Some Dir else map_of (dev_entries d) (d @ r))" for r
    using l6 [of r] map_of_dev_entries_pts [of d]
    by (auto simp: dv(1) lookup_append split: option.splits)
  have "resolve (cwd s) ?dev = Some d" using d by (simp add: c3 c2 c1)
  moreover have "cwd s' = cwd s" by (simp add: dv(2) c6 c5 c4 c3 c2 c1)
  moreover have "mounts s' = \<lparr>m_point = d @ [''pts''], m_fstype = ''devpts'', m_flags = 0,
                          m_data = [], m_covered = subtree t (fs s5)\<rparr>
                        # \<lparr>m_point = d, m_fstype = ''tmpfs'',
                           m_flags = MS_NOSUID OR MS_STRICTATIME, m_data = ''mode=755'',
                           m_covered = subtree d (fs s3)\<rparr> # mounts s3"
    by (simp add: dv(3) mt6 mt5 mt4 tp)
  moreover have "trace s' = trace s4 @ [Exists ?pts, Makedirs ?pts,
                    Mount (Some ''devpts'') ?pts (Some ''devpts'') 0 (Some [])] @ dev_calls ?dev"
    by (simp add: dv(4) t6 t5)
  ultimately show ?thesis using look by blast
qed

section \<open>Image paths\<close>

text \<open>
  C9. The derived image base path does not determine the image reference: the images
  (library \<open>a\<close>, image \<open>b_c\<close>, tag \<open>t\<close>) and (library \<open>a_b\<close>, image \<open>c\<close>, tag \<open>t\<close>)
  are different values and have the same path under every image directory, because the
  underscore that separates the components may also occur inside them.
\<close>

theorem image_base_path_not_injective:
  "\<lparr>library = ''a'', image = ''b_c'', tag = ''t''\<rparr>
     \<noteq> \<lparr>library = ''a_b'', image = ''c'', tag = ''t''\<rparr>
   \<and> get_image_base_path \<lparr>library = ''a'', image = ''b_c'', tag = ''t''\<rparr> image_dir
     = get_image_base_path \<lparr>library = ''a_b'', image = ''c'', tag = ''t''\<rparr> image_dir
   \<and> \<not> inj (\<lambda>img. get_image_base_path img image_dir)"
proof -
  let ?i = "\<lparr>library = ''a'', image = ''b_c'', tag = ''t''\<rparr>"
  let ?j = "\<lparr>library = ''a_b'', image = ''c'', tag = ''t''\<rparr>"
  have ne: "?i \<noteq> ?j" by simp
  have eq: "get_image_base_path ?i image_dir = get_image_base_path ?j image_dir"
    by (simp add: get_image_base_path_def)
  have "\<not> inj (\<lambda>img. get_image_base_path img image_dir)"
  proof
    assume "inj (\<lambda>img. get_image_base_path img image_dir)"
    then have "?i = ?j" using eq by (rule injD)
    with ne show False by contradiction
  qed
  with ne eq show ?thesis by blast
qed

end
